theory Spec2Isabelle
  imports Main
begin

section \<open>The join-application submission flow\<close>

text \<open>
  A shallow embedding of \<^verbatim>\<open>src/components/global/join-form.tsx\<close>: the validation
  schema \<^verbatim>\<open>formSchema\<close>, the submit handler \<^verbatim>\<open>onSubmit\<close> and the wiring
  \<^verbatim>\<open>form.handleSubmit(onSubmit)\<close> with the submit button that is disabled while
  \<^verbatim>\<open>isSubmitting\<close> holds. React state, the form library's state, the reCAPTCHA
  widget, the network and the activity logger are components of an explicit state and
  of an explicit environment.
\<close>

subsection \<open>JavaScript values\<close>

text \<open>
  The parsed response body \<^verbatim>\<open>data\<close> has the TypeScript type \<^verbatim>\<open>any\<close>: it is
  whatever \<^verbatim>\<open>response.json()\<close> produced. Numbers are kept to the integers.
  A property read gives \<^verbatim>\<open>undefined\<close> (here \<open>None\<close>) where there is no such
  property. Strings are lists of characters, one per unit that \<^verbatim>\<open>length\<close>
  counts.
\<close>

datatype json =
    JNull
  | JBool bool
  | JNum int
  | JStr string
  | JArr "json list"
  | JObj "(string \<times> json) list"

type_synonym js_value = "json option"

text \<open>A thrown value: an \<^verbatim>\<open>Error\<close> instance with its message, or anything else.\<close>

datatype js_error = JsError string | NonError

text \<open>JavaScript truthiness, as used by \<^verbatim>\<open>!token\<close>, \<^verbatim>\<open>&&\<close> and \<^verbatim>\<open>||\<close>.\<close>

fun truthy :: "js_value \<Rightarrow> bool" where
  "truthy None = False"
| "truthy (Some JNull) = False"
| "truthy (Some (JBool b)) = b"
| "truthy (Some (JNum n)) = (n \<noteq> 0)"
| "truthy (Some (JStr s)) = (s \<noteq> [])"
| "truthy (Some (JArr xs)) = True"
| "truthy (Some (JObj kvs)) = True"

text \<open>\<^verbatim>\<open>a || b\<close> where \<^verbatim>\<open>b\<close> is a string literal of the source.\<close>

definition orElse :: "js_value \<Rightarrow> json \<Rightarrow> json" where
  "orElse a b = (case a of None \<Rightarrow> b | Some x \<Rightarrow> if truthy (Some x) then x else b)"

text \<open>
  \<^verbatim>\<open>data.k\<close> for the three keys the handler reads (\<^verbatim>\<open>message\<close>,
  \<^verbatim>\<open>applicationId\<close>, \<^verbatim>\<open>redirect\<close>), none of which is a built-in property of a
  string, number, boolean or array: \<open>readProp\<close> is the value read from a payload
  that is not \<^verbatim>\<open>null\<close>. With a repeated key \<^verbatim>\<open>JSON.parse\<close> keeps the last one.
\<close>

fun readProp :: "json \<Rightarrow> string \<Rightarrow> js_value" where
  "readProp (JObj kvs) k = map_of (rev kvs) k"
| "readProp JNull k = None"
| "readProp (JBool b) k = None"
| "readProp (JNum n) k = None"
| "readProp (JStr s) k = None"
| "readProp (JArr xs) k = None"

text \<open>
  Reading a property of \<^verbatim>\<open>null\<close> throws a \<^verbatim>\<open>TypeError\<close>, whose message text
  belongs to the JavaScript engine and is the parameter \<open>nullMsg\<close>.
\<close>

definition getProp :: "(string \<Rightarrow> string) \<Rightarrow> json \<Rightarrow> string \<Rightarrow> js_error + js_value" where
  "getProp nullMsg d k =
     (if d = JNull then Inl (JsError (nullMsg k)) else Inr (readProp d k))"

subsection \<open>The form data and its schema\<close>

text \<open>\<^verbatim>\<open>type FormData = z.infer<typeof formSchema>\<close>\<close>

record form_data =
  name :: string
  email :: string
  phone :: string
  batch :: string
  rollNumber :: string
  registrationNumber :: string
  department :: string
  interestedTracks :: "string list"
  whyJoin :: string
  experience :: "string option"
  projects :: "string option"
  otherRemarks :: "string option"
  recaptchaToken :: string

definition defaultValues :: form_data where
  "defaultValues =
     \<lparr> name = [], email = [], phone = [], batch = [], rollNumber = [],
       registrationNumber = [], department = [], interestedTracks = [],
       whyJoin = [], experience = Some [], projects = Some [],
       otherRemarks = Some [], recaptchaToken = [] \<rparr>"

subsection \<open>The environment\<close>

text \<open>
  What the handler awaits and cannot decide: the response, and how the call to
  \<^verbatim>\<open>logActivity\<close> settles.
\<close>

record response =
  status :: nat
  body :: "js_error + json"

text \<open>\<^verbatim>\<open>response.ok\<close>: the status is in the range 200 to 299.\<close>

definition ok :: "response \<Rightarrow> bool" where
  "ok r = (200 \<le> status r \<and> status r \<le> 299)"

datatype fetch_outcome = FetchRejects js_error | FetchResponse response

record log_event =
  eventName :: string
  eventContext :: "(string \<times> js_value) list"

datatype log_outcome = Resolves | Rejects js_error | NeverSettles

text \<open>
  The parts of the program that are not in \<^verbatim>\<open>join-form.tsx\<close> are parameters:
  \<^item> \<open>emailPattern\<close>: the test behind \<^verbatim>\<open>z.string().email(...)\<close> of the schema
    library;
  \<^item> \<open>fetchResult\<close>: how \<^verbatim>\<open>fetch("/api/join", ...)\<close> settles for a request body;
    \<open>body\<close> of the response is how \<^verbatim>\<open>response.json()\<close> settles;
  \<^item> \<open>logResult\<close>: how the promise of \<^verbatim>\<open>logActivity\<close> (the hook
    \<^verbatim>\<open>useActivityLogger\<close>) settles, given the number of events logged before and
    the event;
  \<^item> \<open>nullReadMessage\<close>: the engine's message for reading a property of \<^verbatim>\<open>null\<close>.
\<close>

record env =
  emailPattern :: "string \<Rightarrow> bool"
  fetchResult :: "form_data \<Rightarrow> fetch_outcome"
  logResult :: "nat \<Rightarrow> log_event \<Rightarrow> log_outcome"
  nullReadMessage :: "string \<Rightarrow> string"

text \<open>
  \<^verbatim>\<open>formSchema\<close>, read as the resolver reads it: the list of fields that fail with
  their messages, in the order of the schema; the empty list when the values parse.
  \<^verbatim>\<open>.min(n)\<close> on a string or an array compares its \<^verbatim>\<open>length\<close>. The three optional
  strings have no rule.
\<close>

definition formSchema :: "env \<Rightarrow> form_data \<Rightarrow> (string \<times> string) list" where
  "formSchema e v =
     (if length (name v) < 2
      then [(''name'', ''Name must be at least 2 characters'')] else []) @
     (if \<not> emailPattern e (email v)
      then [(''email'', ''Invalid email address'')] else []) @
     (if length (phone v) < 10
      then [(''phone'', ''Phone number must be at least 10 digits'')] else []) @
     (if length (batch v) < 4
      then [(''batch'', ''Please enter your batch year'')] else []) @
     (if length (rollNumber v) < 1
      then [(''rollNumber'', ''Roll number is required'')] else []) @
     (if length (registrationNumber v) < 1
      then [(''registrationNumber'', ''Registration number is required'')] else []) @
     (if length (department v) < 1
      then [(''department'', ''Please select a department'')] else []) @
     (if length (interestedTracks v) < 1
      then [(''interestedTracks'', ''Please select at least one track'')] else []) @
     (if length (whyJoin v) < 50
      then [(''whyJoin'',
             ''Please provide at least 50 characters explaining why you want to join'')]
      else []) @
     (if length (recaptchaToken v) < 1
      then [(''recaptchaToken'', ''reCAPTCHA verification is required'')] else [])"

subsection \<open>The state of the component\<close>

datatype status_type = Success | Error

record submit_status =
  statusType :: "status_type option"
  message :: json

text \<open>
  \<^item> \<open>isSubmitting\<close>, \<open>submitStatus\<close>: the two \<^verbatim>\<open>useState\<close> cells;
  \<^item> \<open>formValues\<close>, \<open>formErrors\<close>: the values and the field errors held by
    \<^verbatim>\<open>useForm\<close>;
  \<^item> \<open>recaptcha\<close>: \<^verbatim>\<open>recaptchaRef.current\<close>, \<open>None\<close> when the ref is
    \<^verbatim>\<open>null\<close>, otherwise the widget with what \<^verbatim>\<open>getValue()\<close> returns
    (\<open>None\<close> for \<^verbatim>\<open>null\<close>);
  \<^item> \<open>fetchCalls\<close>: the bodies of the requests issued so far;
  \<^item> \<open>activityLog\<close>: the events passed to \<^verbatim>\<open>logActivity\<close> so far;
  \<^item> \<open>consoleErrors\<close>: what \<^verbatim>\<open>console.error\<close> received;
  \<^item> \<open>location\<close>: the value assigned to \<^verbatim>\<open>window.location.href\<close>, if any.
\<close>

record ui_state =
  isSubmitting :: bool
  submitStatus :: submit_status
  formValues :: form_data
  formErrors :: "(string \<times> string) list"
  recaptcha :: "string option option"
  fetchCalls :: "form_data list"
  activityLog :: "log_event list"
  consoleErrors :: "js_error list"
  location :: js_value

definition noStatus :: submit_status where
  "noStatus = \<lparr> statusType = None, message = JStr [] \<rparr>"

definition errorStatus :: "json \<Rightarrow> submit_status" where
  "errorStatus m = \<lparr> statusType = Some Error, message = m \<rparr>"

definition successStatus :: "json \<Rightarrow> submit_status" where
  "successStatus m = \<lparr> statusType = Some Success, message = m \<rparr>"

text \<open>The component as first rendered: the widget is mounted and unsolved.\<close>

definition initialState :: ui_state where
  "initialState =
     \<lparr> isSubmitting = False, submitStatus = noStatus, formValues = defaultValues,
       formErrors = [], recaptcha = Some None, fetchCalls = [], activityLog = [],
       consoleErrors = [], location = None \<rparr>"

text \<open>\<^verbatim>\<open>recaptchaRef.current?.getValue()\<close>\<close>

definition getValue :: "string option option \<Rightarrow> string option" where
  "getValue r = (case r of None \<Rightarrow> None | Some v \<Rightarrow> v)"

text \<open>\<^verbatim>\<open>!token\<close>: the token is \<^verbatim>\<open>undefined\<close>, \<^verbatim>\<open>null\<close> or the empty string.\<close>

definition tokenMissing :: "string option \<Rightarrow> bool" where
  "tokenMissing t = (case t of None \<Rightarrow> True | Some s \<Rightarrow> s = [])"

text \<open>
  \<^verbatim>\<open>recaptchaRef.current?.reset()\<close>: the widget, if there is one, forgets its token.
  The form's own \<open>recaptchaToken\<close> value is written by the widget's \<^verbatim>\<open>onChange\<close>
  only, which a reset does not call.
\<close>

definition recaptchaReset :: "ui_state \<Rightarrow> ui_state" where
  "recaptchaReset st =
     st\<lparr> recaptcha := (case recaptcha st of None \<Rightarrow> None | Some v \<Rightarrow> Some None) \<rparr>"

text \<open>\<^verbatim>\<open>form.reset()\<close>: back to the default values, with no field error.\<close>

definition formReset :: "ui_state \<Rightarrow> ui_state" where
  "formReset st = st\<lparr> formValues := defaultValues, formErrors := [] \<rparr>"

subsection \<open>The submit handler\<close>

text \<open>
  How a run of the asynchronous handler ends: it returns, it throws (the promise
  rejects), or it stays suspended at an \<^verbatim>\<open>await\<close> whose promise never settles.
\<close>

datatype completion = Returned | Threw js_error | Pending

text \<open>
  \<^verbatim>\<open>await logActivity(name, context)\<close> followed by the rest \<open>k\<close> of the block:
  the event is handed to the logger, and the rest runs only when the promise
  resolves. A rejection is thrown at the \<^verbatim>\<open>await\<close>.
\<close>

definition awaitLog ::
  "env \<Rightarrow> log_event \<Rightarrow> ui_state \<Rightarrow> (ui_state \<Rightarrow> completion \<times> ui_state) \<Rightarrow> completion \<times> ui_state" where
  "awaitLog e ev st k =
     (let st' = st\<lparr> activityLog := activityLog st @ [ev] \<rparr>
      in case logResult e (length (activityLog st)) ev of
           Resolves \<Rightarrow> k st'
         | Rejects err \<Rightarrow> (Threw err, st')
         | NeverSettles \<Rightarrow> (Pending, st'))"

definition successEvent :: "js_value \<Rightarrow> log_event" where
  "successEvent appId =
     \<lparr> eventName = ''join_form_success'', eventContext = [(''applicationId'', appId)] \<rparr>"

definition blockedEvent :: log_event where
  "blockedEvent =
     \<lparr> eventName = ''join_form_blocked'',
       eventContext = [(''reason'', Some (JStr ''blocked_ip''))] \<rparr>"

definition serverErrorEvent :: "nat \<Rightarrow> log_event" where
  "serverErrorEvent code =
     \<lparr> eventName = ''join_form_error'',
       eventContext =
         [(''error_type'', Some (JStr ''validation_or_server_error'')),
          (''status_code'', Some (JNum (int code)))] \<rparr>"

definition networkErrorEvent :: "js_error \<Rightarrow> log_event" where
  "networkErrorEvent err =
     \<lparr> eventName = ''join_form_error'',
       eventContext =
         [(''error_type'', Some (JStr ''network_error'')),
          (''error'',
           Some (JStr (case err of JsError m \<Rightarrow> m | NonError \<Rightarrow> ''unknown_error'')))] \<rparr>"

text \<open>The branch \<^verbatim>\<open>if (response.ok)\<close>, lines 138 to 147.\<close>

definition successBranch :: "env \<Rightarrow> json \<Rightarrow> ui_state \<Rightarrow> completion \<times> ui_state" where
  "successBranch e data st =
     (case getProp (nullReadMessage e) data ''message'' of
        Inl err \<Rightarrow> (Threw err, st)
      | Inr m \<Rightarrow>
          (let st1 = st\<lparr> submitStatus :=
                           successStatus (orElse m (JStr ''Application submitted successfully!'')) \<rparr>
           in case getProp (nullReadMessage e) data ''applicationId'' of
                Inl err \<Rightarrow> (Threw err, st1)
              | Inr appId \<Rightarrow>
                  awaitLog e (successEvent appId) st1
                    (\<lambda>st2. (Returned, recaptchaReset (formReset st2)))))"

text \<open>
  The branch \<^verbatim>\<open>else if (response.status === 303 && data.redirect)\<close>, lines 148
  to 154, entered with the value \<open>target\<close> of \<^verbatim>\<open>data.redirect\<close>.
\<close>

definition blockedBranch :: "env \<Rightarrow> js_value \<Rightarrow> ui_state \<Rightarrow> completion \<times> ui_state" where
  "blockedBranch e target st =
     awaitLog e blockedEvent st (\<lambda>st1. (Returned, st1\<lparr> location := target \<rparr>))"

text \<open>The last \<^verbatim>\<open>else\<close>, lines 155 to 166.\<close>

definition errorBranch :: "env \<Rightarrow> response \<Rightarrow> json \<Rightarrow> ui_state \<Rightarrow> completion \<times> ui_state" where
  "errorBranch e resp data st =
     (case getProp (nullReadMessage e) data ''message'' of
        Inl err \<Rightarrow> (Threw err, st)
      | Inr m \<Rightarrow>
          awaitLog e (serverErrorEvent (status resp))
            (st\<lparr> submitStatus :=
                   errorStatus
                     (orElse m (JStr ''Failed to submit application. Please try again.'')) \<rparr>)
            (\<lambda>st1. (Returned, recaptchaReset st1)))"

text \<open>
  The three-way choice on the response, lines 138 to 166. \<^verbatim>\<open>&&\<close> reads
  \<^verbatim>\<open>data.redirect\<close> only when the status is 303.
\<close>

definition interpretResponse :: "env \<Rightarrow> response \<Rightarrow> json \<Rightarrow> ui_state \<Rightarrow> completion \<times> ui_state" where
  "interpretResponse e resp data st =
     (if ok resp then successBranch e data st
      else if status resp = 303 then
        (case getProp (nullReadMessage e) data ''redirect'' of
           Inl err \<Rightarrow> (Threw err, st)
         | Inr target \<Rightarrow>
             if truthy target then blockedBranch e target st
             else errorBranch e resp data st)
      else errorBranch e resp data st)"

text \<open>The \<^verbatim>\<open>catch (err)\<close> block, lines 167 to 177.\<close>

definition catchBlock :: "env \<Rightarrow> js_error \<Rightarrow> ui_state \<Rightarrow> completion \<times> ui_state" where
  "catchBlock e err st =
     awaitLog e (networkErrorEvent err)
       (st\<lparr> consoleErrors := consoleErrors st @ [err],
            submitStatus :=
              errorStatus
                (JStr ''Network error. Please check your connection and try again.'') \<rparr>)
       (\<lambda>st1. (Returned, recaptchaReset st1))"

text \<open>
  The \<^verbatim>\<open>finally\<close> block, lines 178 to 180: it runs when the protected blocks
  have returned or thrown, and not while the handler is still suspended.
\<close>

definition finallyBlock :: "completion \<times> ui_state \<Rightarrow> completion \<times> ui_state" where
  "finallyBlock r =
     (case fst r of
        Pending \<Rightarrow> r
      | Returned \<Rightarrow> (Returned, (snd r)\<lparr> isSubmitting := False \<rparr>)
      | Threw err \<Rightarrow> (Threw err, (snd r)\<lparr> isSubmitting := False \<rparr>))"

text \<open>
  \<^verbatim>\<open>onSubmit\<close> up to \<^verbatim>\<open>await fetch(...)\<close>, lines 107 to 134. The result is
  \<open>None\<close> when the handler has returned without a request (the token is missing; the
  \<^verbatim>\<open>finally\<close> block has run), and the request body when the request has been
  issued and the handler waits for it.
\<close>

definition onSubmit_begin :: "form_data \<Rightarrow> ui_state \<Rightarrow> form_data option \<times> ui_state" where
  "onSubmit_begin values st =
     (let st1 = st\<lparr> isSubmitting := True, submitStatus := noStatus \<rparr>;
          token = getValue (recaptcha st1)
      in if tokenMissing token then
           (None,
            snd (finallyBlock
                   (Returned,
                    st1\<lparr> submitStatus :=
                           errorStatus (JStr ''Please complete the reCAPTCHA verification.''),
                         isSubmitting := False \<rparr>)))
         else
           (let submissionData = values\<lparr> recaptchaToken := (case token of None \<Rightarrow> [] | Some t \<Rightarrow> t) \<rparr>
            in (Some submissionData,
                st1\<lparr> fetchCalls := fetchCalls st1 @ [submissionData] \<rparr>)))"

text \<open>
  \<^verbatim>\<open>onSubmit\<close> from the moment the promise of \<^verbatim>\<open>fetch\<close> settles, lines 128 to
  180: a rejection of \<^verbatim>\<open>fetch\<close> or of \<^verbatim>\<open>response.json()\<close> and every throw of the
  \<^verbatim>\<open>try\<close> block go to \<^verbatim>\<open>catch\<close>; \<^verbatim>\<open>finally\<close> closes both.
\<close>

definition tryRest :: "env \<Rightarrow> fetch_outcome \<Rightarrow> ui_state \<Rightarrow> completion \<times> ui_state" where
  "tryRest e out st =
     (case out of
        FetchRejects err \<Rightarrow> (Threw err, st)
      | FetchResponse resp \<Rightarrow>
          (case body resp of
             Inl err \<Rightarrow> (Threw err, st)
           | Inr data \<Rightarrow> interpretResponse e resp data st))"

definition onSubmit_afterFetch :: "env \<Rightarrow> fetch_outcome \<Rightarrow> ui_state \<Rightarrow> completion \<times> ui_state" where
  "onSubmit_afterFetch e out st =
     finallyBlock
       (case tryRest e out st of
          (Threw err, st1) \<Rightarrow> catchBlock e err st1
        | (Returned, st1) \<Rightarrow> (Returned, st1)
        | (Pending, st1) \<Rightarrow> (Pending, st1))"

text \<open>\<^verbatim>\<open>async function onSubmit(values)\<close>, with the network answering as \<open>e\<close> says.\<close>

definition onSubmit :: "env \<Rightarrow> form_data \<Rightarrow> ui_state \<Rightarrow> completion \<times> ui_state" where
  "onSubmit e values st =
     (case onSubmit_begin values st of
        (None, st1) \<Rightarrow> (Returned, st1)
      | (Some req, st1) \<Rightarrow> onSubmit_afterFetch e (fetchResult e req) st1)"

text \<open>
  \<^verbatim>\<open>form.handleSubmit(onSubmit)\<close>, the \<^verbatim>\<open>onSubmit\<close> of the form element, line 211:
  the resolver built from \<^verbatim>\<open>formSchema\<close> runs on the current values; with errors
  they become the field errors and \<^verbatim>\<open>onSubmit\<close> is not called; without, the
  field errors are cleared and \<^verbatim>\<open>onSubmit\<close> runs on the values.
\<close>

definition handleSubmit_begin :: "env \<Rightarrow> ui_state \<Rightarrow> form_data option \<times> ui_state" where
  "handleSubmit_begin e st =
     (let errs = formSchema e (formValues st)
      in if errs \<noteq> [] then (None, st\<lparr> formErrors := errs \<rparr>)
         else onSubmit_begin (formValues st) (st\<lparr> formErrors := [] \<rparr>))"

definition handleSubmit :: "env \<Rightarrow> ui_state \<Rightarrow> completion \<times> ui_state" where
  "handleSubmit e st =
     (let errs = formSchema e (formValues st)
      in if errs \<noteq> [] then (Returned, st\<lparr> formErrors := errs \<rparr>)
         else onSubmit e (formValues st) (st\<lparr> formErrors := [] \<rparr>))"

subsection \<open>The component as a machine of events\<close>

text \<open>
  \<^verbatim>\<open>form.handleSubmit(onSubmit)\<close> reads the values and awaits the resolver before it
  calls \<^verbatim>\<open>onSubmit\<close>; \<^verbatim>\<open>onSubmit\<close> is suspended at \<^verbatim>\<open>await fetch(...)\<close>; and the
  button of line 518 takes its \<^verbatim>\<open>disabled\<close> attribute from \<open>isSubmitting\<close> when the
  component renders, not when the state is set. \<^verbatim>\<open>onSubmit\<close> itself never reads
  \<open>isSubmitting\<close>. Other events of the page are served at each of these points.

  \<open>afterResolver\<close> is what \<^verbatim>\<open>handleSubmit\<close> does when the resolver has answered for
  the values it was given.
\<close>

definition afterResolver :: "env \<Rightarrow> form_data \<Rightarrow> ui_state \<Rightarrow> form_data option \<times> ui_state" where
  "afterResolver e values st =
     (let errs = formSchema e values
      in if errs \<noteq> [] then (None, st\<lparr> formErrors := errs \<rparr>)
         else onSubmit_begin values (st\<lparr> formErrors := [] \<rparr>))"







subsection \<open>Sample inputs\<close>

text \<open>
  A filled-in form, a state with a solved challenge, and environments in which the
  network and the logger behave in a fixed way. The email test of the sample
  environment asks for an \<^verbatim>\<open>@\<close>.
\<close>

definition validValues :: form_data where
  "validValues =
     \<lparr> name = ''Asha Khan'', email = ''asha@example.org'', phone = ''9876543210'',
       batch = ''2024'', rollNumber = ''17'', registrationNumber = ''R-1017'',
       department = ''Civil Engineering'', interestedTracks = [''Hardware & IoT''],
       whyJoin = ''I want to build robots with other students and learn embedded programming.'',
       experience = None, projects = None, otherRemarks = Some [],
       recaptchaToken = ''tok'' \<rparr>"

definition readyState :: ui_state where
  "readyState = initialState\<lparr> formValues := validValues, recaptcha := Some (Some ''tok'') \<rparr>"

definition alwaysResolves :: "nat \<Rightarrow> log_event \<Rightarrow> log_outcome" where
  "alwaysResolves n ev = Resolves"

definition alwaysRejects :: "nat \<Rightarrow> log_event \<Rightarrow> log_outcome" where
  "alwaysRejects n ev = Rejects (JsError ''logging failed'')"

definition neverSettles :: "nat \<Rightarrow> log_event \<Rightarrow> log_outcome" where
  "neverSettles n ev = NeverSettles"

definition hasAt :: "string \<Rightarrow> bool" where
  "hasAt s = (CHR ''@'' \<in> set s)"

definition nullText :: "string \<Rightarrow> string" where
  "nullText k = ''Cannot read properties of null''"

definition sampleEnv :: "fetch_outcome \<Rightarrow> (nat \<Rightarrow> log_event \<Rightarrow> log_outcome) \<Rightarrow> env" where
  "sampleEnv out lg =
     \<lparr> emailPattern = hasAt, fetchResult = (\<lambda>req. out), logResult = lg,
       nullReadMessage = nullText \<rparr>"

definition respond :: "nat \<Rightarrow> json \<Rightarrow> fetch_outcome" where
  "respond code payload = FetchResponse \<lparr> status = code, body = Inr payload \<rparr>"

subsection \<open>Predicates of the properties\<close>

text \<open>
  The seven required identity and classification fields, what it is for one of them
  to be empty, and what it is for one of them to break the rule the schema has for it
  beyond being empty (roll number, registration number and department have no rule
  but to be non-empty).
\<close>

definition requiredFields :: "string list" where
  "requiredFields =
     [''name'', ''email'', ''phone'', ''batch'', ''rollNumber'', ''registrationNumber'',
      ''department'']"

definition requiredEmpty :: "form_data \<Rightarrow> bool" where
  "requiredEmpty v =
     (name v = [] \<or> email v = [] \<or> phone v = [] \<or> batch v = [] \<or> rollNumber v = [] \<or>
      registrationNumber v = [] \<or> department v = [])"

definition requiredMalformed :: "env \<Rightarrow> form_data \<Rightarrow> bool" where
  "requiredMalformed e v =
     (length (name v) < 2 \<or> \<not> emailPattern e (email v) \<or> length (phone v) < 10 \<or>
      length (batch v) < 4)"

text \<open>Three response bodies on the edge of what the handler tests.\<close>

definition emptyRedirect :: json where
  "emptyRedirect = JObj [(''message'', JStr ''Blocked''), (''redirect'', JStr [])]"


definition welcomeReply :: json where
  "welcomeReply = JObj [(''message'', JStr ''Welcome!''), (''applicationId'', JStr ''X'')]"





section \<open>Properties of the submission flow\<close>

subsection \<open>Local validation\<close>

lemma handleSubmit_invalid:
  assumes "formSchema e (formValues st) \<noteq> []"
  shows "handleSubmit e st = (Returned, st\<lparr> formErrors := formSchema e (formValues st) \<rparr>)"
    and "handleSubmit_begin e st = (None, st\<lparr> formErrors := formSchema e (formValues st) \<rparr>)"
  using assms by (simp_all add: handleSubmit_def handleSubmit_begin_def Let_def)

text \<open>
  The two halves of the handler, before and after \<^verbatim>\<open>await fetch(...)\<close>, make up
  the whole.
\<close>

lemma handleSubmit_split:
  "handleSubmit e st =
     (case handleSubmit_begin e st of
        (None, st1) \<Rightarrow> (Returned, st1)
      | (Some req, st1) \<Rightarrow> onSubmit_afterFetch e (fetchResult e req) st1)"
  by (simp add: handleSubmit_def handleSubmit_begin_def onSubmit_def Let_def)

lemma formSchema_whyJoin:
  "length (whyJoin v) < 50 \<Longrightarrow>
   (''whyJoin'', ''Please provide at least 50 characters explaining why you want to join'')
     \<in> set (formSchema e v)"
  by (simp add: formSchema_def)

text \<open>
  Claim C8. A submission whose motivation text \<open>whyJoin\<close> has fewer than 50
  characters is blocked, whatever the other fields hold: the resolver reports the
  field error for \<open>whyJoin\<close>, \<^verbatim>\<open>onSubmit\<close> is not called, no request is waiting and
  the list of issued requests is as before.
\<close>

theorem short_motivation_blocks_submission:
  assumes "length (whyJoin (formValues st)) < 50"
  shows "handleSubmit e st = (Returned, st\<lparr> formErrors := formSchema e (formValues st) \<rparr>)
       \<and> (''whyJoin'', ''Please provide at least 50 characters explaining why you want to join'')
            \<in> set (formSchema e (formValues st))
       \<and> fst (handleSubmit_begin e st) = None
       \<and> fetchCalls (snd (handleSubmit e st)) = fetchCalls st"
proof -
  have mem: "(''whyJoin'', ''Please provide at least 50 characters explaining why you want to join'')
            \<in> set (formSchema e (formValues st))"
    using assms by (rule formSchema_whyJoin)
  then have ne: "formSchema e (formValues st) \<noteq> []" by auto
  show ?thesis
    using mem by (simp add: handleSubmit_invalid [OF ne])
qed

text \<open>
  The form is filled in correctly but for a motivation of 14 characters: the only
  field error is the one of \<open>whyJoin\<close>, and nothing is sent.
\<close>

theorem short_motivation_witness:
  "length (whyJoin (formValues (readyState\<lparr> formValues := validValues\<lparr> whyJoin := ''I like robots.'' \<rparr> \<rparr>))) < 50
   \<and> formSchema (sampleEnv (FetchRejects NonError) alwaysResolves) (validValues\<lparr> whyJoin := ''I like robots.'' \<rparr>)
       = [(''whyJoin'', ''Please provide at least 50 characters explaining why you want to join'')]
   \<and> fetchCalls (snd (handleSubmit (sampleEnv (FetchRejects NonError) alwaysResolves)
        (readyState\<lparr> formValues := validValues\<lparr> whyJoin := ''I like robots.'' \<rparr> \<rparr>))) = []"
  using short_motivation_blocks_submission
    [of "readyState\<lparr> formValues := validValues\<lparr> whyJoin := ''I like robots.'' \<rparr> \<rparr>"
        "sampleEnv (FetchRejects NonError) alwaysResolves"]
  by (simp add: readyState_def initialState_def validValues_def formSchema_def sampleEnv_def hasAt_def)

lemma formSchema_required:
  assumes "\<not> emailPattern e []" and "requiredEmpty v \<or> requiredMalformed e v"
  shows "set requiredFields \<inter> fst ` set (formSchema e v) \<noteq> {}"
proof -
  from assms have
    "length (name v) < 2 \<or> \<not> emailPattern e (email v) \<or> length (phone v) < 10 \<or>
     length (batch v) < 4 \<or> length (rollNumber v) < 1 \<or> length (registrationNumber v) < 1 \<or>
     length (department v) < 1"
    by (auto simp: requiredEmpty_def requiredMalformed_def)
  then consider
      "length (name v) < 2" | "\<not> emailPattern e (email v)" | "length (phone v) < 10"
    | "length (batch v) < 4" | "length (rollNumber v) < 1"
    | "length (registrationNumber v) < 1" | "length (department v) < 1"
    by blast
  then show ?thesis
  proof cases
    case 1
    then have "(''name'', ''Name must be at least 2 characters'') \<in> set (formSchema e v)"
      by (simp add: formSchema_def)
    then have "''name'' \<in> fst ` set (formSchema e v)" by force
    then show ?thesis by (auto simp: requiredFields_def)
  next
    case 2
    then have "(''email'', ''Invalid email address'') \<in> set (formSchema e v)"
      by (simp add: formSchema_def)
    then have "''email'' \<in> fst ` set (formSchema e v)" by force
    then show ?thesis by (auto simp: requiredFields_def)
  next
    case 3
    then have "(''phone'', ''Phone number must be at least 10 digits'') \<in> set (formSchema e v)"
      by (simp add: formSchema_def)
    then have "''phone'' \<in> fst ` set (formSchema e v)" by force
    then show ?thesis by (auto simp: requiredFields_def)
  next
    case 4
    then have "(''batch'', ''Please enter your batch year'') \<in> set (formSchema e v)"
      by (simp add: formSchema_def)
    then have "''batch'' \<in> fst ` set (formSchema e v)" by force
    then show ?thesis by (auto simp: requiredFields_def)
  next
    case 5
    then have "(''rollNumber'', ''Roll number is required'') \<in> set (formSchema e v)"
      by (simp add: formSchema_def)
    then have "''rollNumber'' \<in> fst ` set (formSchema e v)" by force
    then show ?thesis by (auto simp: requiredFields_def)
  next
    case 6
    then have "(''registrationNumber'', ''Registration number is required'') \<in> set (formSchema e v)"
      by (simp add: formSchema_def)
    then have "''registrationNumber'' \<in> fst ` set (formSchema e v)" by force
    then show ?thesis by (auto simp: requiredFields_def)
  next
    case 7
    then have "(''department'', ''Please select a department'') \<in> set (formSchema e v)"
      by (simp add: formSchema_def)
    then have "''department'' \<in> fst ` set (formSchema e v)" by force
    then show ?thesis by (auto simp: requiredFields_def)
  qed
qed

text \<open>
  Claim C3. When one of the seven required fields is empty or breaks its rule of the
  schema, the submission ends in the resolver: the field errors are shown, one of them
  for a required field, \<^verbatim>\<open>onSubmit\<close> is not called, and no request is issued. The email
  test belongs to the schema library; that it refuses the empty string is the first
  hypothesis.
\<close>

theorem invalid_required_field_blocks_submission:
  assumes "\<not> emailPattern e []"
    and "requiredEmpty (formValues st) \<or> requiredMalformed e (formValues st)"
  shows "handleSubmit e st = (Returned, st\<lparr> formErrors := formSchema e (formValues st) \<rparr>)
       \<and> set requiredFields \<inter> fst ` set (formErrors (snd (handleSubmit e st))) \<noteq> {}
       \<and> fst (handleSubmit_begin e st) = None
       \<and> fetchCalls (snd (handleSubmit e st)) = fetchCalls st"
proof -
  have hit: "set requiredFields \<inter> fst ` set (formSchema e (formValues st)) \<noteq> {}"
    using assms by (rule formSchema_required)
  then have ne: "formSchema e (formValues st) \<noteq> []" by auto
  show ?thesis
    using hit by (simp add: handleSubmit_invalid [OF ne])
qed

text \<open>The form is filled in correctly but for an empty roll number.\<close>

theorem invalid_required_field_witness:
  "\<not> emailPattern (sampleEnv (FetchRejects NonError) alwaysResolves) []
   \<and> requiredEmpty (formValues (readyState\<lparr> formValues := validValues\<lparr> rollNumber := [] \<rparr> \<rparr>))
   \<and> formErrors (snd (handleSubmit (sampleEnv (FetchRejects NonError) alwaysResolves)
        (readyState\<lparr> formValues := validValues\<lparr> rollNumber := [] \<rparr> \<rparr>)))
       = [(''rollNumber'', ''Roll number is required'')]
   \<and> fetchCalls (snd (handleSubmit (sampleEnv (FetchRejects NonError) alwaysResolves)
        (readyState\<lparr> formValues := validValues\<lparr> rollNumber := [] \<rparr> \<rparr>))) = []"
  using invalid_required_field_blocks_submission
    [of "sampleEnv (FetchRejects NonError) alwaysResolves"
        "readyState\<lparr> formValues := validValues\<lparr> rollNumber := [] \<rparr> \<rparr>"]
  by (simp add: readyState_def initialState_def validValues_def formSchema_def sampleEnv_def
      hasAt_def requiredEmpty_def)

subsection \<open>The verification token\<close>

lemma onSubmit_begin_missing:
  assumes "tokenMissing (getValue (recaptcha st))"
  shows "onSubmit_begin v st =
           (None, st\<lparr> isSubmitting := False,
                      submitStatus := errorStatus (JStr ''Please complete the reCAPTCHA verification.'') \<rparr>)"
  using assms by (simp add: onSubmit_begin_def finallyBlock_def Let_def)

lemma onSubmit_begin_token:
  assumes "getValue (recaptcha st) = Some t" and "t \<noteq> []"
  shows "onSubmit_begin v st =
           (Some (v\<lparr> recaptchaToken := t \<rparr>),
            st\<lparr> isSubmitting := True, submitStatus := noStatus,
                fetchCalls := fetchCalls st @ [v\<lparr> recaptchaToken := t \<rparr>] \<rparr>)"
  using assms by (simp add: onSubmit_begin_def tokenMissing_def Let_def)

lemma recaptcha_of_token: "getValue r = Some t \<Longrightarrow> r = Some (Some t)"
  by (cases r) (simp_all add: getValue_def)

text \<open>
  The schema has a rule for the form's own copy of the token, which the widget's
  \<^verbatim>\<open>onChange\<close> writes: the resolver reports it exactly when the copy is empty.
\<close>

lemma formSchema_token:
  "((''recaptchaToken'', ''reCAPTCHA verification is required'') \<in> set (formSchema e v))
     = (recaptchaToken v = [])"
  by (simp add: formSchema_def)



subsection \<open>The handler after the request\<close>

lemmas flow_defs =
  onSubmit_def onSubmit_begin_def onSubmit_afterFetch_def tryRest_def interpretResponse_def
  successBranch_def blockedBranch_def errorBranch_def catchBlock_def finallyBlock_def
  awaitLog_def getProp_def orElse_def ok_def getValue_def tokenMissing_def recaptchaReset_def
  formReset_def Let_def

lemmas sample_defs =
  sampleEnv_def respond_def readyState_def initialState_def alwaysResolves_def
  alwaysRejects_def neverSettles_def

lemma onSubmit_token:
  assumes "getValue (recaptcha st) = Some t" and "t \<noteq> []"
  shows "onSubmit e v st =
           onSubmit_afterFetch e (fetchResult e (v\<lparr> recaptchaToken := t \<rparr>))
             (st\<lparr> isSubmitting := True, submitStatus := noStatus,
                  fetchCalls := fetchCalls st @ [v\<lparr> recaptchaToken := t \<rparr>] \<rparr>)"
  by (simp add: onSubmit_def onSubmit_begin_token [OF assms])

lemma awaitLog_resolves:
  "logResult e (length (activityLog st)) ev = Resolves \<Longrightarrow>
   awaitLog e ev st k = k (st\<lparr> activityLog := activityLog st @ [ev] \<rparr>)"
  by (simp add: awaitLog_def Let_def)

lemma afterFetch_returned:
  "tryRest e out st = (Returned, st') \<Longrightarrow>
   onSubmit_afterFetch e out st = (Returned, st'\<lparr> isSubmitting := False \<rparr>)"
  by (simp add: onSubmit_afterFetch_def finallyBlock_def)

lemma afterFetch_threw:
  "tryRest e out st = (Threw err, st') \<Longrightarrow>
   onSubmit_afterFetch e out st = finallyBlock (catchBlock e err st')"
  by (simp add: onSubmit_afterFetch_def)

lemma catchBlock_resolves:
  assumes "logResult e (length (activityLog st)) (networkErrorEvent err) = Resolves"
  shows "catchBlock e err st =
    (Returned,
     recaptchaReset
       (st\<lparr> consoleErrors := consoleErrors st @ [err],
            submitStatus :=
              errorStatus (JStr ''Network error. Please check your connection and try again.''),
            activityLog := activityLog st @ [networkErrorEvent err] \<rparr>))"
  using assms by (simp add: catchBlock_def awaitLog_resolves)

lemma getProp_defined: "d \<noteq> JNull \<Longrightarrow> getProp f d k = Inr (readProp d k)"
  by (simp add: getProp_def)

lemma truthy_not_null: "truthy (readProp d k) \<Longrightarrow> d \<noteq> JNull"
  by (cases d) simp_all

lemma errorBranch_resolves:
  assumes "data \<noteq> JNull"
    and "logResult e (length (activityLog st)) (serverErrorEvent (status resp)) = Resolves"
  shows "errorBranch e resp data st =
    (Returned,
     recaptchaReset
       (st\<lparr> submitStatus :=
              errorStatus (orElse (readProp data ''message'')
                 (JStr ''Failed to submit application. Please try again.'')),
            activityLog := activityLog st @ [serverErrorEvent (status resp)] \<rparr>))"
  using assms by (simp add: errorBranch_def getProp_defined awaitLog_resolves)


lemma blockedBranch_resolves:
  assumes "logResult e (length (activityLog st)) blockedEvent = Resolves"
  shows "blockedBranch e target st =
    (Returned, st\<lparr> activityLog := activityLog st @ [blockedEvent], location := target \<rparr>)"
  using assms by (simp add: blockedBranch_def awaitLog_resolves)

subsection \<open>Network failure\<close>

text \<open>
  Claim C7, as the handler has it. The token is there, the request is issued and its
  promise rejects, so that there is no response. The handler goes to its \<^verbatim>\<open>catch\<close>
  block: the status is the error with the connectivity message, and the event
  \<open>network_error\<close> is handed to the logger and awaited (line 173). Once that call has
  resolved the widget forgets its token and the submitting flag is down; the form
  values and field errors are what they were and there is no navigation.
\<close>

theorem network_failure_is_recoverable:
  assumes tok: "getValue (recaptcha st) = Some t" "t \<noteq> []"
    and net: "fetchResult e (v\<lparr> recaptchaToken := t \<rparr>) = FetchRejects err"
    and lg: "logResult e (length (activityLog st)) (networkErrorEvent err) = Resolves"
  shows "onSubmit e v st =
           (Returned,
            st\<lparr> isSubmitting := False,
                submitStatus :=
                  \<lparr> statusType = Some Error,
                    message = JStr ''Network error. Please check your connection and try again.'' \<rparr>,
                recaptcha := Some None,
                fetchCalls := fetchCalls st @ [v\<lparr> recaptchaToken := t \<rparr>],
                activityLog := activityLog st @ [networkErrorEvent err],
                consoleErrors := consoleErrors st @ [err] \<rparr>)"
proof -
  let ?st1 = "st\<lparr> isSubmitting := True, submitStatus := noStatus,
                  fetchCalls := fetchCalls st @ [v\<lparr> recaptchaToken := t \<rparr>] \<rparr>"
  have r: "recaptcha st = Some (Some t)"
    using tok(1) by (rule recaptcha_of_token)
  have t: "tryRest e (FetchRejects err) ?st1 = (Threw err, ?st1)"
    by (simp add: tryRest_def)
  have c: "catchBlock e err ?st1 =
    (Returned,
     recaptchaReset
       (?st1\<lparr> consoleErrors := consoleErrors ?st1 @ [err],
            submitStatus :=
              errorStatus (JStr ''Network error. Please check your connection and try again.''),
            activityLog := activityLog ?st1 @ [networkErrorEvent err] \<rparr>))"
    by (rule catchBlock_resolves) (simp add: lg)
  have "onSubmit e v st = finallyBlock (catchBlock e err ?st1)"
    by (simp add: onSubmit_token [OF tok] net afterFetch_threw [OF t])
  then show ?thesis
    by (simp add: c finallyBlock_def recaptchaReset_def r errorStatus_def)
qed

text \<open>The request of the sample form is refused by the network.\<close>

theorem network_failure_witness:
  "getValue (recaptcha readyState) = Some ''tok''
   \<and> fetchResult (sampleEnv (FetchRejects NonError) alwaysResolves)
        (validValues\<lparr> recaptchaToken := ''tok'' \<rparr>) = FetchRejects NonError
   \<and> submitStatus (snd (onSubmit (sampleEnv (FetchRejects NonError) alwaysResolves) validValues readyState))
       = \<lparr> statusType = Some Error,
                    message = JStr ''Network error. Please check your connection and try again.'' \<rparr>
   \<and> getValue (recaptcha (snd (onSubmit (sampleEnv (FetchRejects NonError) alwaysResolves) validValues readyState)))
       = None
   \<and> formValues (snd (onSubmit (sampleEnv (FetchRejects NonError) alwaysResolves) validValues readyState))
       = validValues"
  using network_failure_is_recoverable
    [of readyState "''tok''" "sampleEnv (FetchRejects NonError) alwaysResolves" validValues NonError]
  by (simp add: readyState_def initialState_def getValue_def sampleEnv_def alwaysResolves_def
      errorStatus_def)

text \<open>
  Claim C7 as it is stated has the token cleared whenever the request fails. The
  reset of the widget stands after \<^verbatim>\<open>await logActivity(...)\<close> in the \<^verbatim>\<open>catch\<close> block:
  with a logger that rejects, the handler throws out of the block and the widget keeps
  its token; with a logger that never settles, the handler stays suspended, the
  submitting flag up and the token kept.
\<close>

theorem network_failure_logger_counterexample:
  "fst (onSubmit (sampleEnv (FetchRejects NonError) alwaysRejects) validValues readyState)
     = Threw (JsError ''logging failed'')
   \<and> recaptcha (snd (onSubmit (sampleEnv (FetchRejects NonError) alwaysRejects)
         validValues readyState)) = Some (Some ''tok'')
   \<and> fst (onSubmit (sampleEnv (FetchRejects NonError) neverSettles) validValues readyState)
     = Pending
   \<and> isSubmitting (snd (onSubmit (sampleEnv (FetchRejects NonError) neverSettles)
         validValues readyState))
   \<and> recaptcha (snd (onSubmit (sampleEnv (FetchRejects NonError) neverSettles)
         validValues readyState)) = Some (Some ''tok'')"
  by (simp add: flow_defs sample_defs)

subsection \<open>Responses that are neither a success nor a redirect\<close>

text \<open>
  Claim C6, as the handler has it. The response has a status outside 200 to 299 and
  other than 303, and a body that is not \<^verbatim>\<open>null\<close> (the body
  \<^verbatim>\<open>{message: "Too many requests"}\<close> of the claim is one). The status is set to the
  error with the message of the body, or with the fallback text when that message is
  missing or falsy, and the event with the status code is handed to the logger and
  awaited (line 161). Once that call has resolved, the status shown is still that one,
  the widget forgets its token and nothing else of the form changes: the values and
  the field errors are those of before, and there is no navigation.
\<close>

theorem server_rejection_is_recoverable:
  assumes tok: "getValue (recaptcha st) = Some t" "t \<noteq> []"
    and net: "fetchResult e (v\<lparr> recaptchaToken := t \<rparr>) = FetchResponse resp"
    and st: "\<not> ok resp" "status resp \<noteq> 303"
    and payload: "body resp = Inr data" "data \<noteq> JNull"
    and lg: "logResult e (length (activityLog st)) (serverErrorEvent (status resp)) = Resolves"
  shows "onSubmit e v st =
           (Returned,
            st\<lparr> isSubmitting := False,
                submitStatus :=
                  \<lparr> statusType = Some Error,
                    message = orElse (readProp data ''message'')
                                (JStr ''Failed to submit application. Please try again.'') \<rparr>,
                recaptcha := Some None,
                fetchCalls := fetchCalls st @ [v\<lparr> recaptchaToken := t \<rparr>],
                activityLog := activityLog st @ [serverErrorEvent (status resp)] \<rparr>)"
proof -
  let ?st1 = "st\<lparr> isSubmitting := True, submitStatus := noStatus,
                  fetchCalls := fetchCalls st @ [v\<lparr> recaptchaToken := t \<rparr>] \<rparr>"
  have r: "recaptcha st = Some (Some t)"
    using tok(1) by (rule recaptcha_of_token)
  have b: "errorBranch e resp data ?st1 =
    (Returned,
     recaptchaReset
       (?st1\<lparr> submitStatus :=
              errorStatus (orElse (readProp data ''message'')
                 (JStr ''Failed to submit application. Please try again.'')),
            activityLog := activityLog ?st1 @ [serverErrorEvent (status resp)] \<rparr>))"
    by (rule errorBranch_resolves) (simp_all add: payload lg)
  have t: "tryRest e (FetchResponse resp) ?st1 = errorBranch e resp data ?st1"
    using st payload by (simp add: tryRest_def interpretResponse_def)
  show ?thesis
    by (simp add: onSubmit_token [OF tok] net afterFetch_returned [OF t [unfolded b]]
        recaptchaReset_def r errorStatus_def)
qed

text \<open>The server answers 429 with \<^verbatim>\<open>{message: "Too many requests"}\<close>.\<close>

theorem server_rejection_witness:
  "getValue (recaptcha readyState) = Some ''tok''
   \<and> \<not> ok \<lparr> status = 429, body = Inr (JObj [(''message'', JStr ''Too many requests'')]) \<rparr>
   \<and> submitStatus (snd (onSubmit
         (sampleEnv (respond 429 (JObj [(''message'', JStr ''Too many requests'')])) alwaysResolves)
         validValues readyState))
       = \<lparr> statusType = Some Error, message = JStr ''Too many requests'' \<rparr>
   \<and> getValue (recaptcha (snd (onSubmit
         (sampleEnv (respond 429 (JObj [(''message'', JStr ''Too many requests'')])) alwaysResolves)
         validValues readyState)))
       = None
   \<and> formValues (snd (onSubmit
         (sampleEnv (respond 429 (JObj [(''message'', JStr ''Too many requests'')])) alwaysResolves)
         validValues readyState))
       = validValues"
  using server_rejection_is_recoverable
    [of readyState "''tok''"
        "sampleEnv (respond 429 (JObj [(''message'', JStr ''Too many requests'')])) alwaysResolves"
        validValues
        "\<lparr> status = 429, body = Inr (JObj [(''message'', JStr ''Too many requests'')]) \<rparr>"
        "JObj [(''message'', JStr ''Too many requests'')]"]
  by (simp add: readyState_def initialState_def getValue_def sampleEnv_def alwaysResolves_def
      respond_def ok_def orElse_def errorStatus_def)

text \<open>
  Claim C6 as it is stated has the message of the body shown and the token cleared for
  every such response. For 429 with \<^verbatim>\<open>{message: "Too many requests"}\<close> and a logger
  that rejects, the rejection is thrown at line 161 into the \<^verbatim>\<open>catch\<close> block: the
  status shown is the connectivity error, and the widget keeps its token.
\<close>

theorem server_rejection_logger_counterexample:
  "\<not> ok \<lparr> status = 429, body = Inr (JObj [(''message'', JStr ''Too many requests'')]) \<rparr>
   \<and> submitStatus (snd (onSubmit
         (sampleEnv (respond 429 (JObj [(''message'', JStr ''Too many requests'')])) alwaysRejects)
         validValues readyState))
       = \<lparr> statusType = Some Error,
           message = JStr ''Network error. Please check your connection and try again.'' \<rparr>
   \<and> recaptcha (snd (onSubmit
         (sampleEnv (respond 429 (JObj [(''message'', JStr ''Too many requests'')])) alwaysRejects)
         validValues readyState)) = Some (Some ''tok'')"
  by (simp add: flow_defs sample_defs errorStatus_def)

subsection \<open>Status 303\<close>

text \<open>
  Claim C1, as the handler has it. The test of line 148 is the truthiness of
  \<^verbatim>\<open>data.redirect\<close>, not the presence of the field. With status 303 and a truthy
  \<^verbatim>\<open>redirect\<close> the event \<open>join_form_blocked\<close> is logged and awaited, and then
  \<^verbatim>\<open>window.location.href\<close> receives the value of the field; the form values, the
  field errors and the widget are what they were, the status is the empty one that
  \<^verbatim>\<open>onSubmit\<close> set on entry, and the submitting flag is down. That the call to
  the logger resolves is the last hypothesis.
\<close>

theorem see_other_with_redirect_navigates:
  assumes tok: "getValue (recaptcha st) = Some t" "t \<noteq> []"
    and net: "fetchResult e (v\<lparr> recaptchaToken := t \<rparr>) = FetchResponse resp"
    and st: "status resp = 303"
    and payload: "body resp = Inr data"
    and redirect: "truthy (readProp data ''redirect'')"
    and lg: "logResult e (length (activityLog st)) blockedEvent = Resolves"
  shows "onSubmit e v st =
           (Returned,
            st\<lparr> isSubmitting := False,
                submitStatus := noStatus,
                fetchCalls := fetchCalls st @ [v\<lparr> recaptchaToken := t \<rparr>],
                activityLog := activityLog st @ [blockedEvent],
                location := readProp data ''redirect'' \<rparr>)"
proof -
  let ?st1 = "st\<lparr> isSubmitting := True, submitStatus := noStatus,
                  fetchCalls := fetchCalls st @ [v\<lparr> recaptchaToken := t \<rparr>] \<rparr>"
  have n: "data \<noteq> JNull"
    using redirect by (rule truthy_not_null)
  have b: "blockedBranch e (readProp data ''redirect'') ?st1 =
    (Returned, ?st1\<lparr> activityLog := activityLog ?st1 @ [blockedEvent],
                      location := readProp data ''redirect'' \<rparr>)"
    by (rule blockedBranch_resolves) (simp add: lg)
  have t: "tryRest e (FetchResponse resp) ?st1 = blockedBranch e (readProp data ''redirect'') ?st1"
    using st payload redirect n
    by (simp add: tryRest_def interpretResponse_def ok_def getProp_defined)
  show ?thesis
    by (simp add: onSubmit_token [OF tok] net afterFetch_returned [OF t [unfolded b]])
qed

text \<open>The server answers 303 with \<^verbatim>\<open>{redirect: "/blocked"}\<close>.\<close>

theorem see_other_with_redirect_witness:
  "getValue (recaptcha readyState) = Some ''tok''
   \<and> truthy (readProp (JObj [(''redirect'', JStr ''/blocked'')]) ''redirect'')
   \<and> location (snd (onSubmit
         (sampleEnv (respond 303 (JObj [(''redirect'', JStr ''/blocked'')])) alwaysResolves)
         validValues readyState)) = Some (JStr ''/blocked'')
   \<and> formValues (snd (onSubmit
         (sampleEnv (respond 303 (JObj [(''redirect'', JStr ''/blocked'')])) alwaysResolves)
         validValues readyState)) = validValues
   \<and> recaptcha (snd (onSubmit
         (sampleEnv (respond 303 (JObj [(''redirect'', JStr ''/blocked'')])) alwaysResolves)
         validValues readyState)) = Some (Some ''tok'')"
  using see_other_with_redirect_navigates
    [of readyState "''tok''"
        "sampleEnv (respond 303 (JObj [(''redirect'', JStr ''/blocked'')])) alwaysResolves"
        validValues
        "\<lparr> status = 303, body = Inr (JObj [(''redirect'', JStr ''/blocked'')]) \<rparr>"
        "JObj [(''redirect'', JStr ''/blocked'')]"]
  by (simp add: readyState_def initialState_def getValue_def sampleEnv_def alwaysResolves_def
      respond_def)

text \<open>
  Claim C1 as it is stated asks only that the body contain a \<^verbatim>\<open>redirect\<close> field. The
  body \<^verbatim>\<open>{message: "Blocked", redirect: ""}\<close> with status 303 contains one, and the
  handler does not navigate: it shows the error status with the message of the body,
  logs the event of the error branch and resets the widget.
\<close>

theorem empty_redirect_counterexample:
  "readProp emptyRedirect ''redirect'' = Some (JStr [])
   \<and> location (snd (onSubmit (sampleEnv (respond 303 emptyRedirect) alwaysResolves)
         validValues readyState)) = None
   \<and> submitStatus (snd (onSubmit (sampleEnv (respond 303 emptyRedirect) alwaysResolves)
         validValues readyState)) = errorStatus (JStr ''Blocked'')
   \<and> activityLog (snd (onSubmit (sampleEnv (respond 303 emptyRedirect) alwaysResolves)
         validValues readyState)) = [serverErrorEvent 303]
   \<and> recaptcha (snd (onSubmit (sampleEnv (respond 303 emptyRedirect) alwaysResolves)
         validValues readyState)) = Some None"
  by (simp add: flow_defs sample_defs emptyRedirect_def)

text \<open>
  Claim C10, as the handler has it: for a body that is not \<^verbatim>\<open>null\<close> and a call to
  the logger that resolves. With status 303 and a \<^verbatim>\<open>redirect\<close> that is missing or falsy
  the handler takes the last \<^verbatim>\<open>else\<close> and hands the event with the status code 303
  to the logger. Once that call has resolved, the whole of the outcome is: no
  navigation, the error status with the message of the body or the fallback text, the
  widget reset, the form values and field errors as before.
\<close>

theorem see_other_without_redirect_is_recoverable:
  assumes tok: "getValue (recaptcha st) = Some t" "t \<noteq> []"
    and net: "fetchResult e (v\<lparr> recaptchaToken := t \<rparr>) = FetchResponse resp"
    and st: "status resp = 303"
    and payload: "body resp = Inr data" "data \<noteq> JNull"
    and redirect: "\<not> truthy (readProp data ''redirect'')"
    and lg: "logResult e (length (activityLog st)) (serverErrorEvent 303) = Resolves"
  shows "onSubmit e v st =
           (Returned,
            st\<lparr> isSubmitting := False,
                submitStatus :=
                  \<lparr> statusType = Some Error,
                    message = orElse (readProp data ''message'')
                                (JStr ''Failed to submit application. Please try again.'') \<rparr>,
                recaptcha := Some None,
                fetchCalls := fetchCalls st @ [v\<lparr> recaptchaToken := t \<rparr>],
                activityLog := activityLog st @ [serverErrorEvent 303] \<rparr>)"
proof -
  let ?st1 = "st\<lparr> isSubmitting := True, submitStatus := noStatus,
                  fetchCalls := fetchCalls st @ [v\<lparr> recaptchaToken := t \<rparr>] \<rparr>"
  have r: "recaptcha st = Some (Some t)"
    using tok(1) by (rule recaptcha_of_token)
  have b: "errorBranch e resp data ?st1 =
    (Returned,
     recaptchaReset
       (?st1\<lparr> submitStatus :=
              errorStatus (orElse (readProp data ''message'')
                 (JStr ''Failed to submit application. Please try again.'')),
            activityLog := activityLog ?st1 @ [serverErrorEvent (status resp)] \<rparr>))"
    by (rule errorBranch_resolves) (simp_all add: payload lg st)
  have t: "tryRest e (FetchResponse resp) ?st1 = errorBranch e resp data ?st1"
    using st payload redirect
    by (simp add: tryRest_def interpretResponse_def ok_def getProp_defined)
  show ?thesis
    using st
    by (simp add: onSubmit_token [OF tok] net afterFetch_returned [OF t [unfolded b]]
        recaptchaReset_def r errorStatus_def)
qed

text \<open>The server answers 303 with \<^verbatim>\<open>{message: "Not now"}\<close> and no \<^verbatim>\<open>redirect\<close>.\<close>

theorem see_other_without_redirect_witness:
  "getValue (recaptcha readyState) = Some ''tok''
   \<and> \<not> truthy (readProp (JObj [(''message'', JStr ''Not now'')]) ''redirect'')
   \<and> location (snd (onSubmit
         (sampleEnv (respond 303 (JObj [(''message'', JStr ''Not now'')])) alwaysResolves)
         validValues readyState)) = None
   \<and> submitStatus (snd (onSubmit
         (sampleEnv (respond 303 (JObj [(''message'', JStr ''Not now'')])) alwaysResolves)
         validValues readyState))
       = \<lparr> statusType = Some Error, message = JStr ''Not now'' \<rparr>
   \<and> getValue (recaptcha (snd (onSubmit
         (sampleEnv (respond 303 (JObj [(''message'', JStr ''Not now'')])) alwaysResolves)
         validValues readyState)))
       = None
   \<and> formValues (snd (onSubmit
         (sampleEnv (respond 303 (JObj [(''message'', JStr ''Not now'')])) alwaysResolves)
         validValues readyState))
       = validValues"
  using see_other_without_redirect_is_recoverable
    [of readyState "''tok''"
        "sampleEnv (respond 303 (JObj [(''message'', JStr ''Not now'')])) alwaysResolves"
        validValues
        "\<lparr> status = 303, body = Inr (JObj [(''message'', JStr ''Not now'')]) \<rparr>"
        "JObj [(''message'', JStr ''Not now'')]"]
  by (simp add: readyState_def initialState_def getValue_def sampleEnv_def alwaysResolves_def
      respond_def orElse_def errorStatus_def)

text \<open>
  Claim C10 as it is stated covers every JSON body without a truthy \<^verbatim>\<open>redirect\<close>.
  The body \<^verbatim>\<open>null\<close> is one, and with status 303 the handler does not reach the last
  \<^verbatim>\<open>else\<close>: reading \<^verbatim>\<open>data.redirect\<close> throws, the \<^verbatim>\<open>catch\<close> block shows the
  connectivity message and logs the event \<open>network_error\<close>.
\<close>

theorem null_payload_counterexample:
  "\<not> truthy (readProp JNull ''redirect'')
   \<and> submitStatus (snd (onSubmit (sampleEnv (respond 303 JNull) alwaysResolves)
         validValues readyState))
       = \<lparr> statusType = Some Error,
                    message = JStr ''Network error. Please check your connection and try again.'' \<rparr>
   \<and> activityLog (snd (onSubmit (sampleEnv (respond 303 JNull) alwaysResolves)
         validValues readyState))
       = [networkErrorEvent (JsError (nullText ''redirect''))]"
  by (simp add: flow_defs sample_defs errorStatus_def)

subsection \<open>Success\<close>




subsection \<open>The logger\<close>

text \<open>
  The four calls \<^verbatim>\<open>await logActivity(...)\<close> stand between the response and the rest of
  the transition. The lemmas follow the handler block by block: what no block
  touches, what a logger that settles guarantees, and what the first call of an
  attempt does when it rejects and when it never settles.
\<close>

lemmas branch_defs =
  successBranch_def blockedBranch_def errorBranch_def catchBlock_def awaitLog_def getProp_def
  recaptchaReset_def formReset_def Let_def

lemma interpretResponse_fetchCalls:
  "fetchCalls (snd (interpretResponse e resp d st)) = fetchCalls st"
  by (simp add: interpretResponse_def branch_defs split: log_outcome.splits)

lemma catchBlock_fetchCalls:
  "fetchCalls (snd (catchBlock e err st)) = fetchCalls st"
  by (simp add: branch_defs split: log_outcome.splits)

lemma tryRest_fetchCalls:
  "fetchCalls (snd (tryRest e out st)) = fetchCalls st"
  by (simp add: tryRest_def interpretResponse_fetchCalls split: fetch_outcome.splits sum.splits)

lemma finallyBlock_fetchCalls:
  "fetchCalls (snd (finallyBlock r)) = fetchCalls (snd r)"
  by (cases "fst r") (simp_all add: finallyBlock_def)

lemma afterFetch_fetchCalls:
  "fetchCalls (snd (onSubmit_afterFetch e out st)) = fetchCalls st"
proof (cases "tryRest e out st")
  case (Pair c st1)
  then have f: "fetchCalls st1 = fetchCalls st"
    using tryRest_fetchCalls [of e out st] by simp
  show ?thesis
    by (cases c) (simp_all add: onSubmit_afterFetch_def Pair finallyBlock_fetchCalls
        catchBlock_fetchCalls f)
qed

lemma onSubmit_fetchCalls_logger:
  "fetchCalls (snd (onSubmit (e\<lparr> logResult := lg \<rparr>) v st)) = fetchCalls (snd (onSubmit e v st))"
  by (simp add: onSubmit_def afterFetch_fetchCalls split: prod.splits option.splits)

lemma interpretResponse_settles:
  "\<forall>n ev. logResult e n ev \<noteq> NeverSettles \<Longrightarrow> fst (interpretResponse e resp d st) \<noteq> Pending"
  by (simp add: interpretResponse_def branch_defs split: log_outcome.splits)

lemma catchBlock_settles:
  "\<forall>n ev. logResult e n ev \<noteq> NeverSettles \<Longrightarrow> fst (catchBlock e err st) \<noteq> Pending"
  by (simp add: branch_defs split: log_outcome.splits)

lemma tryRest_settles:
  "\<forall>n ev. logResult e n ev \<noteq> NeverSettles \<Longrightarrow> fst (tryRest e out st) \<noteq> Pending"
  by (simp add: tryRest_def interpretResponse_settles split: fetch_outcome.splits sum.splits)

lemma finallyBlock_done:
  "fst r \<noteq> Pending \<Longrightarrow> fst (finallyBlock r) = fst r \<and> \<not> isSubmitting (snd (finallyBlock r))"
  by (cases "fst r") (simp_all add: finallyBlock_def)

lemma afterFetch_settles:
  assumes "\<forall>n ev. logResult e n ev \<noteq> NeverSettles"
  shows "fst (onSubmit_afterFetch e out st) \<noteq> Pending
       \<and> \<not> isSubmitting (snd (onSubmit_afterFetch e out st))"
proof (cases "tryRest e out st")
  case (Pair c st1)
  then have np: "c \<noteq> Pending"
    using tryRest_settles [OF assms, of out st] by simp
  show ?thesis
  proof (cases c)
    case Returned
    then show ?thesis by (simp add: onSubmit_afterFetch_def Pair finallyBlock_def)
  next
    case (Threw err)
    then show ?thesis
      using finallyBlock_done [OF catchBlock_settles [OF assms, of err st1]]
        catchBlock_settles [OF assms, of err st1]
      by (simp add: onSubmit_afterFetch_def Pair)
  next
    case Pending
    with np show ?thesis by simp
  qed
qed

lemma onSubmit_settles:
  assumes "\<forall>n ev. logResult e n ev \<noteq> NeverSettles"
  shows "fst (onSubmit e v st) \<noteq> Pending \<and> \<not> isSubmitting (snd (onSubmit e v st))"
proof (cases "tokenMissing (getValue (recaptcha st))")
  case True
  then show ?thesis by (simp add: onSubmit_def onSubmit_begin_missing)
next
  case False
  then obtain t where "getValue (recaptcha st) = Some t" "t \<noteq> []"
    by (auto simp: tokenMissing_def split: option.splits)
  then show ?thesis
    using afterFetch_settles [OF assms] by (simp add: onSubmit_token)
qed

text \<open>What survives the catch block whatever the logger does.\<close>

lemma catchBlock_shows_network_error:
  "submitStatus (snd (catchBlock e err st))
     = errorStatus (JStr ''Network error. Please check your connection and try again.'')
   \<and> formValues (snd (catchBlock e err st)) = formValues st
   \<and> location (snd (catchBlock e err st)) = location st"
  by (simp add: branch_defs split: log_outcome.splits)

lemma finallyBlock_frame:
  "submitStatus (snd (finallyBlock r)) = submitStatus (snd r)
   \<and> formValues (snd (finallyBlock r)) = formValues (snd r)
   \<and> recaptcha (snd (finallyBlock r)) = recaptcha (snd r)
   \<and> location (snd (finallyBlock r)) = location (snd r)"
  by (cases "fst r") (simp_all add: finallyBlock_def)

lemma interpretResponse_first_rejects:
  assumes "\<forall>ev. logResult e (length (activityLog st)) ev = Rejects (rej ev)"
  shows "\<exists>err st'. interpretResponse e resp d st = (Threw err, st')
           \<and> formValues st' = formValues st \<and> location st' = location st"
  using assms by (simp add: interpretResponse_def branch_defs)

lemma tryRest_first_rejects:
  assumes "\<forall>ev. logResult e (length (activityLog st)) ev = Rejects (rej ev)"
  shows "\<exists>err st'. tryRest e out st = (Threw err, st')
           \<and> formValues st' = formValues st \<and> location st' = location st"
  using interpretResponse_first_rejects [OF assms]
  by (simp add: tryRest_def split: fetch_outcome.splits sum.splits)

lemma afterFetch_first_rejects:
  assumes "\<forall>ev. logResult e (length (activityLog st)) ev = Rejects (rej ev)"
  shows "submitStatus (snd (onSubmit_afterFetch e out st))
           = errorStatus (JStr ''Network error. Please check your connection and try again.'')
       \<and> formValues (snd (onSubmit_afterFetch e out st)) = formValues st
       \<and> location (snd (onSubmit_afterFetch e out st)) = location st"
proof -
  obtain err st' where t: "tryRest e out st = (Threw err, st')"
    and f: "formValues st' = formValues st" "location st' = location st"
    using tryRest_first_rejects [OF assms] by blast
  show ?thesis
    by (simp add: afterFetch_threw [OF t] finallyBlock_frame catchBlock_shows_network_error f)
qed

lemma interpretResponse_first_hangs:
  assumes "\<forall>ev. logResult e (length (activityLog st)) ev = NeverSettles"
  shows "\<exists>c st'. interpretResponse e resp d st = (c, st')
           \<and> (c = Pending \<or> (\<exists>err. c = Threw err) \<and> activityLog st' = activityLog st)
           \<and> isSubmitting st' = isSubmitting st
           \<and> formValues st' = formValues st \<and> recaptcha st' = recaptcha st
           \<and> location st' = location st"
  using assms by (simp add: interpretResponse_def branch_defs)

lemma tryRest_first_hangs:
  assumes "\<forall>ev. logResult e (length (activityLog st)) ev = NeverSettles"
  shows "\<exists>c st'. tryRest e out st = (c, st')
           \<and> (c = Pending \<or> (\<exists>err. c = Threw err) \<and> activityLog st' = activityLog st)
           \<and> isSubmitting st' = isSubmitting st
           \<and> formValues st' = formValues st \<and> recaptcha st' = recaptcha st
           \<and> location st' = location st"
  using interpretResponse_first_hangs [OF assms]
  by (simp add: tryRest_def split: fetch_outcome.splits sum.splits)

lemma catchBlock_hangs:
  assumes "logResult e (length (activityLog st)) (networkErrorEvent err) = NeverSettles"
  shows "fst (catchBlock e err st) = Pending
       \<and> isSubmitting (snd (catchBlock e err st)) = isSubmitting st
       \<and> formValues (snd (catchBlock e err st)) = formValues st
       \<and> recaptcha (snd (catchBlock e err st)) = recaptcha st
       \<and> location (snd (catchBlock e err st)) = location st"
  using assms by (simp add: branch_defs)

lemma afterFetch_first_hangs:
  assumes "\<forall>ev. logResult e (length (activityLog st)) ev = NeverSettles"
  shows "fst (onSubmit_afterFetch e out st) = Pending
       \<and> isSubmitting (snd (onSubmit_afterFetch e out st)) = isSubmitting st
       \<and> formValues (snd (onSubmit_afterFetch e out st)) = formValues st
       \<and> recaptcha (snd (onSubmit_afterFetch e out st)) = recaptcha st
       \<and> location (snd (onSubmit_afterFetch e out st)) = location st"
proof -
  obtain c st' where t: "tryRest e out st = (c, st')"
    and c: "c = Pending \<or> (\<exists>err. c = Threw err) \<and> activityLog st' = activityLog st"
    and f: "isSubmitting st' = isSubmitting st" "formValues st' = formValues st"
      "recaptcha st' = recaptcha st" "location st' = location st"
    using tryRest_first_hangs [OF assms] by blast
  from c show ?thesis
  proof
    assume "c = Pending"
    then show ?thesis
      using t f by (simp add: onSubmit_afterFetch_def finallyBlock_def)
  next
    assume "(\<exists>err. c = Threw err) \<and> activityLog st' = activityLog st"
    then obtain err where e: "c = Threw err" and l: "activityLog st' = activityLog st"
      by blast
    have h: "logResult e (length (activityLog st')) (networkErrorEvent err) = NeverSettles"
      using assms l by simp
    show ?thesis
      using catchBlock_hangs [OF h] t f e
      by (simp add: onSubmit_afterFetch_def finallyBlock_def)
  qed
qed

lemma afterFetch_resolves:
  assumes "\<forall>n ev. logResult e n ev = Resolves"
  shows "fst (onSubmit_afterFetch e out st) = Returned"
proof (cases "tryRest e out st")
  case (Pair c st1)
  have s: "\<forall>n ev. logResult e n ev \<noteq> NeverSettles"
    using assms by simp
  have np: "c \<noteq> Pending"
    using tryRest_settles [OF s, of out st] Pair by simp
  show ?thesis
  proof (cases c)
    case Returned
    then show ?thesis by (simp add: onSubmit_afterFetch_def Pair finallyBlock_def)
  next
    case (Threw err)
    have "fst (catchBlock e err st1) = Returned"
      using assms by (simp add: catchBlock_def awaitLog_def Let_def)
    then show ?thesis
      using Threw by (simp add: onSubmit_afterFetch_def Pair finallyBlock_def)
  next
    case Pending
    with np show ?thesis by simp
  qed
qed

lemma onSubmit_resolves:
  assumes "\<forall>n ev. logResult e n ev = Resolves"
  shows "fst (onSubmit e v st) = Returned"
proof (cases "tokenMissing (getValue (recaptcha st))")
  case True
  then show ?thesis by (simp add: onSubmit_def onSubmit_begin_missing)
next
  case False
  then obtain t where "getValue (recaptcha st) = Some t" "t \<noteq> []"
    by (auto simp: tokenMissing_def split: option.splits)
  then show ?thesis
    using afterFetch_resolves [OF assms] by (simp add: onSubmit_token)
qed

text \<open>
  Claim C2, as the handler has it. The event is handed to the logger and awaited, not
  fired and forgotten:
  \<^item> the requests issued do not depend on the logger;
  \<^item> when every call to the logger resolves, the handler returns and does not throw;
  \<^item> when every call to the logger settles, by resolving or by rejecting, the attempt
    ends and the submitting flag is down;
  \<^item> when the first call of an attempt that has its token rejects, the status shown
    is the error with the connectivity message, whatever the response was, the form
    values are kept and there is no navigation (whether the attempt then ends is the
    matter of the call that the \<^verbatim>\<open>catch\<close> block makes in its turn);
  \<^item> when the first call of such an attempt never settles, the handler stays suspended:
    the submitting flag stays up, the form values are not cleared and the widget keeps
    its token.
  What the transition is when the calls resolve is the matter of the other properties.
\<close>

theorem logging_is_awaited:
  "fetchCalls (snd (onSubmit (e\<lparr> logResult := lg \<rparr>) v st)) = fetchCalls (snd (onSubmit e v st))
   \<and> ((\<forall>n ev. logResult e n ev = Resolves) \<longrightarrow> fst (onSubmit e v st) = Returned)
   \<and> ((\<forall>n ev. logResult e n ev \<noteq> NeverSettles) \<longrightarrow>
          fst (onSubmit e v st) \<noteq> Pending \<and> \<not> isSubmitting (snd (onSubmit e v st)))
   \<and> (\<not> tokenMissing (getValue (recaptcha st)) \<and>
        (\<forall>ev. \<exists>err. logResult e (length (activityLog st)) ev = Rejects err) \<longrightarrow>
          submitStatus (snd (onSubmit e v st))
            = \<lparr> statusType = Some Error,
                    message = JStr ''Network error. Please check your connection and try again.'' \<rparr>
          \<and> formValues (snd (onSubmit e v st)) = formValues st
          \<and> location (snd (onSubmit e v st)) = location st)
   \<and> (\<not> tokenMissing (getValue (recaptcha st)) \<and>
        (\<forall>ev. logResult e (length (activityLog st)) ev = NeverSettles) \<longrightarrow>
          fst (onSubmit e v st) = Pending
          \<and> isSubmitting (snd (onSubmit e v st))
          \<and> formValues (snd (onSubmit e v st)) = formValues st
          \<and> recaptcha (snd (onSubmit e v st)) = recaptcha st
          \<and> location (snd (onSubmit e v st)) = location st)"
proof (intro conjI impI)
  show "fetchCalls (snd (onSubmit (e\<lparr> logResult := lg \<rparr>) v st)) = fetchCalls (snd (onSubmit e v st))"
    by (rule onSubmit_fetchCalls_logger)
next
  assume "\<forall>n ev. logResult e n ev = Resolves"
  then show "fst (onSubmit e v st) = Returned"
    by (rule onSubmit_resolves)
next
  assume "\<forall>n ev. logResult e n ev \<noteq> NeverSettles"
  then have s: "fst (onSubmit e v st) \<noteq> Pending \<and> \<not> isSubmitting (snd (onSubmit e v st))"
    by (rule onSubmit_settles)
  from s show "fst (onSubmit e v st) \<noteq> Pending" by simp
  from s show "\<not> isSubmitting (snd (onSubmit e v st))" by simp
next
  assume a: "\<not> tokenMissing (getValue (recaptcha st)) \<and>
        (\<forall>ev. \<exists>err. logResult e (length (activityLog st)) ev = Rejects err)"
  then obtain t where tok: "getValue (recaptcha st) = Some t" "t \<noteq> []"
    by (auto simp: tokenMissing_def split: option.splits)
  from a obtain rej where rej: "\<forall>ev. logResult e (length (activityLog st)) ev = Rejects (rej ev)"
    by metis
  let ?st1 = "st\<lparr> isSubmitting := True, submitStatus := noStatus,
                  fetchCalls := fetchCalls st @ [v\<lparr> recaptchaToken := t \<rparr>] \<rparr>"
  have "\<forall>ev. logResult e (length (activityLog ?st1)) ev = Rejects (rej ev)"
    using rej by simp
  from afterFetch_first_rejects [OF this, of "fetchResult e (v\<lparr> recaptchaToken := t \<rparr>)"]
  have r: "submitStatus (snd (onSubmit e v st))
            = errorStatus (JStr ''Network error. Please check your connection and try again.'')
          \<and> formValues (snd (onSubmit e v st)) = formValues st
          \<and> location (snd (onSubmit e v st)) = location st"
    by (simp add: onSubmit_token [OF tok])
  from r show "submitStatus (snd (onSubmit e v st))
            = \<lparr> statusType = Some Error,
                message = JStr ''Network error. Please check your connection and try again.'' \<rparr>"
    by (simp add: errorStatus_def)
  from r show "formValues (snd (onSubmit e v st)) = formValues st" by simp
  from r show "location (snd (onSubmit e v st)) = location st" by simp
next
  assume a: "\<not> tokenMissing (getValue (recaptcha st)) \<and>
        (\<forall>ev. logResult e (length (activityLog st)) ev = NeverSettles)"
  then obtain t where tok: "getValue (recaptcha st) = Some t" "t \<noteq> []"
    by (auto simp: tokenMissing_def split: option.splits)
  let ?st1 = "st\<lparr> isSubmitting := True, submitStatus := noStatus,
                  fetchCalls := fetchCalls st @ [v\<lparr> recaptchaToken := t \<rparr>] \<rparr>"
  have "\<forall>ev. logResult e (length (activityLog ?st1)) ev = NeverSettles"
    using a by simp
  from afterFetch_first_hangs [OF this, of "fetchResult e (v\<lparr> recaptchaToken := t \<rparr>)"]
  have r: "fst (onSubmit e v st) = Pending
          \<and> isSubmitting (snd (onSubmit e v st))
          \<and> formValues (snd (onSubmit e v st)) = formValues st
          \<and> recaptcha (snd (onSubmit e v st)) = recaptcha st
          \<and> location (snd (onSubmit e v st)) = location st"
    by (simp add: onSubmit_token [OF tok])
  from r show "fst (onSubmit e v st) = Pending" by simp
  from r show "isSubmitting (snd (onSubmit e v st))" by simp
  from r show "formValues (snd (onSubmit e v st)) = formValues st" by simp
  from r show "recaptcha (snd (onSubmit e v st)) = recaptcha st" by simp
  from r show "location (snd (onSubmit e v st)) = location st" by simp
qed

text \<open>
  The server answers 201 to the sample form; the logger rejects every call in the first
  environment, never settles in the second and resolves every call in the third.
\<close>

theorem logging_is_awaited_witness:
  "(\<forall>n ev. logResult (sampleEnv (respond 201 welcomeReply) alwaysRejects) n ev \<noteq> NeverSettles)
   \<and> \<not> tokenMissing (getValue (recaptcha readyState))
   \<and> (\<forall>ev. \<exists>err. logResult (sampleEnv (respond 201 welcomeReply) alwaysRejects)
                      (length (activityLog readyState)) ev = Rejects err)
   \<and> (\<forall>ev. logResult (sampleEnv (respond 201 welcomeReply) neverSettles)
                      (length (activityLog readyState)) ev = NeverSettles)
   \<and> (\<forall>n ev. logResult (sampleEnv (respond 201 welcomeReply) alwaysResolves) n ev = Resolves)
   \<and> fst (onSubmit (sampleEnv (respond 201 welcomeReply) alwaysResolves) validValues readyState)
       = Returned
   \<and> \<not> isSubmitting (snd (onSubmit (sampleEnv (respond 201 welcomeReply) alwaysRejects)
         validValues readyState))
   \<and> submitStatus (snd (onSubmit (sampleEnv (respond 201 welcomeReply) alwaysRejects)
         validValues readyState))
       = \<lparr> statusType = Some Error,
                    message = JStr ''Network error. Please check your connection and try again.'' \<rparr>
   \<and> formValues (snd (onSubmit (sampleEnv (respond 201 welcomeReply) alwaysRejects)
         validValues readyState)) = validValues
   \<and> fst (onSubmit (sampleEnv (respond 201 welcomeReply) neverSettles) validValues readyState)
       = Pending
   \<and> isSubmitting (snd (onSubmit (sampleEnv (respond 201 welcomeReply) neverSettles)
         validValues readyState))"
proof -
  let ?rej = "sampleEnv (respond 201 welcomeReply) alwaysRejects"
  let ?hang = "sampleEnv (respond 201 welcomeReply) neverSettles"
  have s: "\<forall>n ev. logResult ?rej n ev \<noteq> NeverSettles"
    by (simp add: sampleEnv_def alwaysRejects_def)
  have t: "\<not> tokenMissing (getValue (recaptcha readyState))"
    by (simp add: readyState_def getValue_def tokenMissing_def)
  have r: "\<forall>ev. \<exists>err. logResult ?rej (length (activityLog readyState)) ev = Rejects err"
    by (simp add: sampleEnv_def alwaysRejects_def)
  have h: "\<forall>ev. logResult ?hang (length (activityLog readyState)) ev = NeverSettles"
    by (simp add: sampleEnv_def neverSettles_def)
  have v: "formValues readyState = validValues"
    by (simp add: readyState_def)
  from logging_is_awaited [where e = ?rej and lg = alwaysResolves and v = validValues and st = readyState] s t r v
  have 1: "\<not> isSubmitting (snd (onSubmit ?rej validValues readyState))
     \<and> submitStatus (snd (onSubmit ?rej validValues readyState))
       = \<lparr> statusType = Some Error,
           message = JStr ''Network error. Please check your connection and try again.'' \<rparr>
     \<and> formValues (snd (onSubmit ?rej validValues readyState)) = validValues"
    by simp
  from logging_is_awaited [where e = ?hang and lg = alwaysResolves and v = validValues and st = readyState] t h
  have 2: "fst (onSubmit ?hang validValues readyState) = Pending
     \<and> isSubmitting (snd (onSubmit ?hang validValues readyState))"
    by simp
  have a: "\<forall>n ev. logResult (sampleEnv (respond 201 welcomeReply) alwaysResolves) n ev = Resolves"
    by (simp add: sampleEnv_def alwaysResolves_def)
  from logging_is_awaited [where e = "sampleEnv (respond 201 welcomeReply) alwaysResolves"
      and lg = alwaysResolves and v = validValues and st = readyState] a
  have 3: "fst (onSubmit (sampleEnv (respond 201 welcomeReply) alwaysResolves) validValues readyState)
       = Returned"
    by simp
  from s t r h a 1 2 3 show ?thesis by blast
qed

text \<open>
  Claim C2 as it is stated has the same status and the same resets whether logging
  succeeds or fails, and no blocking. For one and the same response, 201 with
  \<^verbatim>\<open>{message: "Welcome!", applicationId: "X"}\<close>: with a logger that resolves the
  status is the success, the form is cleared and the widget reset; with a logger that
  rejects the status is the connectivity error, the form keeps its values and the
  widget its token; with a logger that never settles the handler stays suspended with
  the submitting flag up and nothing reset.
\<close>

theorem logger_outcome_counterexample:
  "submitStatus (snd (onSubmit (sampleEnv (respond 201 welcomeReply) alwaysResolves)
         validValues readyState)) = \<lparr> statusType = Some Success, message = JStr ''Welcome!'' \<rparr>
   \<and> formValues (snd (onSubmit (sampleEnv (respond 201 welcomeReply) alwaysResolves)
         validValues readyState)) = defaultValues
   \<and> recaptcha (snd (onSubmit (sampleEnv (respond 201 welcomeReply) alwaysResolves)
         validValues readyState)) = Some None
   \<and> submitStatus (snd (onSubmit (sampleEnv (respond 201 welcomeReply) alwaysRejects)
         validValues readyState))
       = \<lparr> statusType = Some Error,
                    message = JStr ''Network error. Please check your connection and try again.'' \<rparr>
   \<and> formValues (snd (onSubmit (sampleEnv (respond 201 welcomeReply) alwaysRejects)
         validValues readyState)) = validValues
   \<and> recaptcha (snd (onSubmit (sampleEnv (respond 201 welcomeReply) alwaysRejects)
         validValues readyState)) = Some (Some ''tok'')
   \<and> fst (onSubmit (sampleEnv (respond 201 welcomeReply) neverSettles) validValues readyState)
       = Pending
   \<and> isSubmitting (snd (onSubmit (sampleEnv (respond 201 welcomeReply) neverSettles)
         validValues readyState))
   \<and> formValues (snd (onSubmit (sampleEnv (respond 201 welcomeReply) neverSettles)
         validValues readyState)) = validValues
   \<and> recaptcha (snd (onSubmit (sampleEnv (respond 201 welcomeReply) neverSettles)
         validValues readyState)) = Some (Some ''tok'')"
  by (simp add: flow_defs sample_defs welcomeReply_def errorStatus_def successStatus_def)

subsection \<open>One submission at a time\<close>

text \<open>
  \<^verbatim>\<open>handleSubmit\<close> taken in one piece is the resolver's answer for the values of the
  moment.
\<close>

lemma handleSubmit_begin_afterResolver:
  "handleSubmit_begin e st = afterResolver e (formValues st) st"
  by (simp add: handleSubmit_begin_def afterResolver_def)














end
